theory Spec2Isabelle
  imports Main
begin

section \<open>The development server of \<open>src/reader/dev-server.py\<close>\<close>

text \<open>
  The script defines one class, \<open>CORSRequestHandler\<close>, a subclass of the Python standard
  library's \<open>http.server.SimpleHTTPRequestHandler\<close>, and a main block that runs a
  \<open>socketserver.TCPServer\<close> with it. The class overrides \<open>end_headers\<close> and adds
  \<open>do_OPTIONS\<close>; everything else it does is inherited. The theory therefore has two kinds
  of definitions:

  \<^item> the script's own code (\<open>PORT\<close>, \<open>end_headers\<close>, \<open>do_OPTIONS\<close>, \<open>main\<close>), translated
    line by line;
  \<^item> the inherited library methods the script's code calls or is called from, translated
    from CPython 3.11 (\<open>Lib/http/server.py\<close>, \<open>Lib/socketserver.py\<close>,
    \<open>Lib/posixpath.py\<close>). Each of them names the library function it embeds.

  Library functions that are pure text processing or that read the clock, the file
  system or the installation (\<open>urllib.parse.unquote\<close>, \<open>mimetypes.guess_type\<close>, the date
  formatting, the error page template) are parameters, collected in the records
  \<open>pyenv\<close> and \<open>filesystem\<close>. Logging to standard error is left out.
\<close>

subsection \<open>Bytes and text\<close>

text \<open>
  Python \<open>bytes\<close> and the Latin-1 decoded request text are both \<open>string\<close>: one \<open>char\<close>
  per byte.
\<close>

definition CRLF :: string where
  "CRLF = [CHR 0x0D, CHR 0x0A]"

text \<open>\<open>str.lower\<close>, on ASCII letters. Its results are only compared with ASCII literals.\<close>

definition lower_char :: "char \<Rightarrow> char" where
  "lower_char c =
     (case map_of (zip ''ABCDEFGHIJKLMNOPQRSTUVWXYZ'' ''abcdefghijklmnopqrstuvwxyz'') c of
        Some d \<Rightarrow> d
      | None \<Rightarrow> c)"

definition lower :: "string \<Rightarrow> string" where
  "lower s = map lower_char s"

text \<open>\<open>str(n)\<close> and the \<open>%d\<close> conversion, for a natural number.\<close>

fun str_nat :: "nat \<Rightarrow> string" where
  "str_nat n =
     (if n < 10 then [''0123456789'' ! n]
      else str_nat (n div 10) @ [''0123456789'' ! (n mod 10)])"

declare str_nat.simps [simp del]

text \<open>
  Comparison of Python strings (\<open>a <= b\<close>): lexicographic, by code point.
\<close>

fun str_le :: "string \<Rightarrow> string \<Rightarrow> bool" where
  "str_le [] ys = True"
| "str_le (x # xs) [] = False"
| "str_le (x # xs) (y # ys) =
     (if x = y then str_le xs ys else (of_char x :: nat) < of_char y)"

subsection \<open>The request handler's state\<close>

text \<open>
  What the handler writes to the socket (\<open>self.wfile\<close>) is kept as the list of its writes.
  A header block is written by \<open>flush_headers\<close> in one write, the joined lines of
  \<open>_headers_buffer\<close>; it is kept as the list of those lines. \<open>wire\<close> gives the bytes.
\<close>

datatype chunk = HeaderBlock "string list" | BodyBytes string

fun chunk_bytes :: "chunk \<Rightarrow> string" where
  "chunk_bytes (HeaderBlock ls) = concat ls"
| "chunk_bytes (BodyBytes b) = b"

definition wire :: "chunk list \<Rightarrow> string" where
  "wire cs = concat (map chunk_bytes cs)"

record handler =
  directory :: string
  command :: "string option"
  path :: string
  request_version :: string
  headers :: "(string \<times> string) list"
  close_connection :: bool
  headers_buffer :: "string list"
  wfile :: "chunk list"

text \<open>
  The parameters of the library: the clock, the installation and the text functions the
  handler calls.
\<close>

record pyenv =
  version_string :: string
  date_time_string :: string
  format_date :: "int \<Rightarrow> string"
  error_page :: "nat \<Rightarrow> string \<Rightarrow> string \<Rightarrow> string"
  unquote :: "string \<Rightarrow> string"
  urlsplit_path :: "string \<Rightarrow> string"
  redirect_url :: "string \<Rightarrow> string"
  mimetypes_guess_type :: "string \<Rightarrow> string option"
  parsedate_utc :: "string \<Rightarrow> int option"
  listing_page :: "string \<Rightarrow> string \<Rightarrow> string list \<Rightarrow> string"
  filesystem_encoding :: string
  py_repr :: "string \<Rightarrow> string"

subsection \<open>Library: \<open>BaseHTTPRequestHandler\<close>\<close>

text \<open>
  \<open>BaseHTTPRequestHandler.protocol_version\<close>: the class attribute, which the script does
  not override.
\<close>

definition protocol_version :: string where
  "protocol_version = ''HTTP/1.0''"

text \<open>
  \<open>BaseHTTPRequestHandler.responses\<close>: the phrase and the description of a status code
  (\<open>http.HTTPStatus\<close>), for the codes the handler sends.
\<close>

definition responses :: "nat \<Rightarrow> (string \<times> string) option" where
  "responses = map_of
     [(100, (''Continue'', ''Request received, please continue'')),
      (200, (''OK'', ''Request fulfilled, document follows'')),
      (301, (''Moved Permanently'', ''Object moved permanently -- see URI list'')),
      (304, (''Not Modified'', ''Document has not changed since given time'')),
      (400, (''Bad Request'', ''Bad request syntax or unsupported method'')),
      (404, (''Not Found'', ''Nothing matches the given URI'')),
      (414, (''Request-URI Too Long'', ''URI is too long'')),
      (431, (''Request Header Fields Too Large'',
             ''The server is unwilling to process the request because its header fields are too large'')),
      (501, (''Not Implemented'', ''Server does not support this operation'')),
      (505, (''HTTP Version Not Supported'', ''Cannot fulfill request''))]"

text \<open>
  \<open>send_response_only(code, message=None)\<close>: the status line goes to the headers buffer,
  unless the request is an HTTP/0.9 one.
\<close>

definition send_response_only :: "nat \<Rightarrow> string option \<Rightarrow> handler \<Rightarrow> handler" where
  "send_response_only code message h =
     (if request_version h \<noteq> ''HTTP/0.9'' then
        let msg = (case message of
                     Some m \<Rightarrow> m
                   | None \<Rightarrow> (case responses code of Some (phrase, _) \<Rightarrow> phrase | None \<Rightarrow> ''''))
        in h\<lparr>headers_buffer := headers_buffer h @
               [protocol_version @ '' '' @ str_nat code @ '' '' @ msg @ CRLF]\<rparr>
      else h)"

text \<open>
  \<open>send_header(keyword, value)\<close>: one header line goes to the headers buffer, unless the
  request is an HTTP/0.9 one; a \<open>Connection\<close> header also sets \<open>close_connection\<close>.
\<close>

definition send_header :: "string \<Rightarrow> string \<Rightarrow> handler \<Rightarrow> handler" where
  "send_header keyword val h =
     (let h = (if request_version h \<noteq> ''HTTP/0.9''
               then h\<lparr>headers_buffer := headers_buffer h @ [keyword @ '': '' @ val @ CRLF]\<rparr>
               else h)
      in if lower keyword = ''connection'' then
           (if lower val = ''close'' then h\<lparr>close_connection := True\<rparr>
            else if lower val = ''keep-alive'' then h\<lparr>close_connection := False\<rparr>
            else h)
         else h)"

text \<open>\<open>flush_headers()\<close>: the buffer is joined, written in one write, and emptied.\<close>

definition flush_headers :: "handler \<Rightarrow> handler" where
  "flush_headers h =
     h\<lparr>wfile := wfile h @ [HeaderBlock (headers_buffer h)], headers_buffer := []\<rparr>"

text \<open>
  \<open>BaseHTTPRequestHandler.end_headers()\<close>, which the script's \<open>end_headers\<close> calls as
  \<open>super().end_headers()\<close>: the blank line ends the header block, and the block is
  flushed; nothing happens for an HTTP/0.9 request.
\<close>

definition Base_end_headers :: "handler \<Rightarrow> handler" where
  "Base_end_headers h =
     (if request_version h \<noteq> ''HTTP/0.9''
      then flush_headers (h\<lparr>headers_buffer := headers_buffer h @ [CRLF]\<rparr>)
      else h)"

text \<open>
  \<open>send_response(code, message=None)\<close>: the status line, then the \<open>Server\<close> and \<open>Date\<close>
  headers.
\<close>

definition send_response :: "pyenv \<Rightarrow> nat \<Rightarrow> string option \<Rightarrow> handler \<Rightarrow> handler" where
  "send_response env code message h =
     (let h = send_response_only code message h;
          h = send_header ''Server'' (version_string env) h;
          h = send_header ''Date'' (date_time_string env) h
      in h)"

subsection \<open>The script: \<open>CORSRequestHandler\<close>\<close>

text \<open>
  \<open>CORSRequestHandler.end_headers\<close> (lines 13 to 21): five \<open>send_header\<close> calls, then the
  inherited \<open>end_headers\<close>.
\<close>

definition end_headers :: "handler \<Rightarrow> handler" where
  "end_headers h =
     (let h = send_header ''Access-Control-Allow-Origin'' ''*'' h;
          h = send_header ''Access-Control-Allow-Methods'' ''GET, POST, OPTIONS'' h;
          h = send_header ''Access-Control-Allow-Headers'' ''Content-Type'' h;
          h = send_header ''Cross-Origin-Embedder-Policy'' ''require-corp'' h;
          h = send_header ''Cross-Origin-Opener-Policy'' ''same-origin'' h
      in Base_end_headers h)"

text \<open>\<open>CORSRequestHandler.do_OPTIONS\<close> (lines 23 to 25).\<close>

definition do_OPTIONS :: "pyenv \<Rightarrow> handler \<Rightarrow> handler" where
  "do_OPTIONS env h = end_headers (send_response env 200 None h)"

text \<open>The five header lines of the script, as they stand in a header block.\<close>

definition cors_lines :: "string list" where
  "cors_lines =
     [''Access-Control-Allow-Origin: *'' @ CRLF,
      ''Access-Control-Allow-Methods: GET, POST, OPTIONS'' @ CRLF,
      ''Access-Control-Allow-Headers: Content-Type'' @ CRLF,
      ''Cross-Origin-Embedder-Policy: require-corp'' @ CRLF,
      ''Cross-Origin-Opener-Policy: same-origin'' @ CRLF]"

subsection \<open>Library: \<open>BaseHTTPRequestHandler.send_error\<close>\<close>

text \<open>
  \<open>send_error(code, message=None, explain=None)\<close>. Its \<open>self.end_headers()\<close> is a method
  call on the handler object, so it runs the script's \<open>end_headers\<close>. \<open>error_page\<close> is the
  encoded \<open>error_message_format\<close> filled with the code, the message and the explanation.
\<close>

definition send_error ::
  "pyenv \<Rightarrow> nat \<Rightarrow> string option \<Rightarrow> string option \<Rightarrow> handler \<Rightarrow> handler" where
  "send_error env code message explain h =
     (let (shortmsg, longmsg) =
            (case responses code of Some r \<Rightarrow> r | None \<Rightarrow> (''???'', ''???''));
          message = (case message of None \<Rightarrow> shortmsg | Some m \<Rightarrow> m);
          explain = (case explain of None \<Rightarrow> longmsg | Some e \<Rightarrow> e);
          h = send_response env code (Some message) h;
          h = send_header ''Connection'' ''close'' h;
          body = (if 200 \<le> code \<and> code \<noteq> 204 \<and> code \<noteq> 205 \<and> code \<noteq> 304
                  then Some (error_page env code message explain) else None);
          h = (case body of
                 Some b \<Rightarrow>
                   send_header ''Content-Length'' (str_nat (length b))
                     (send_header ''Content-Type'' ''text/html;charset=utf-8'' h)
               | None \<Rightarrow> h);
          h = end_headers h
      in case body of
           Some b \<Rightarrow>
             if command h \<noteq> Some ''HEAD'' \<and> b \<noteq> [] then h\<lparr>wfile := wfile h @ [BodyBytes b]\<rparr>
             else h
         | None \<Rightarrow> h)"

subsection \<open>Library: paths (\<open>posixpath\<close>, \<open>str\<close> methods)\<close>

text \<open>\<open>str.isspace\<close> on the characters of Latin-1, and \<open>str.rstrip()\<close>.\<close>

definition py_isspace :: "char \<Rightarrow> bool" where
  "py_isspace c \<longleftrightarrow>
     c \<in> set [CHR 0x09, CHR 0x0A, CHR 0x0B, CHR 0x0C, CHR 0x0D, CHR 0x1C, CHR 0x1D,
                CHR 0x1E, CHR 0x1F, CHR 0x20, CHR 0x85, CHR 0xA0]"

definition rstrip :: "string \<Rightarrow> string" where
  "rstrip s = rev (dropWhile py_isspace (rev s))"

definition endswith_slash :: "string \<Rightarrow> bool" where
  "endswith_slash s \<longleftrightarrow> s \<noteq> [] \<and> last s = CHR ''/''"

definition startswith :: "string \<Rightarrow> string \<Rightarrow> bool" where
  "startswith s p \<longleftrightarrow> take (length p) s = p"

text \<open>\<open>s.split(c, 1)[0]\<close>: the text before the first \<open>c\<close>.\<close>

definition before_sep :: "char \<Rightarrow> string \<Rightarrow> string" where
  "before_sep c s = takeWhile (\<lambda>x. x \<noteq> c) s"

text \<open>\<open>s.split(c)\<close>: the pieces between the occurrences of \<open>c\<close>, empty ones included.\<close>

fun split_on :: "char \<Rightarrow> string \<Rightarrow> string list" where
  "split_on c [] = [[]]"
| "split_on c (x # xs) =
     (if x = c then [] # split_on c xs
      else (case split_on c xs of
              w # ws \<Rightarrow> (x # w) # ws
            | [] \<Rightarrow> [[x]]))"

text \<open>\<open>'/'.join(comps)\<close>.\<close>

fun join_slash :: "string list \<Rightarrow> string" where
  "join_slash [] = []"
| "join_slash [w] = w"
| "join_slash (w # ws) = w @ ''/'' @ join_slash ws"

text \<open>
  \<open>posixpath.normpath\<close>: the body of its loop over the components, then the function.
  \<open>initial_slashes\<close> is 0, 1 or 2.
\<close>

definition normpath_step :: "nat \<Rightarrow> string list \<Rightarrow> string \<Rightarrow> string list" where
  "normpath_step initial_slashes new_comps name =
     (if name = [] \<or> name = ''.'' then new_comps
      else if name \<noteq> ''..'' \<or> (initial_slashes = 0 \<and> new_comps = [])
              \<or> (new_comps \<noteq> [] \<and> last new_comps = ''..'')
      then new_comps @ [name]
      else if new_comps \<noteq> [] then butlast new_comps
      else new_comps)"

definition normpath :: "string \<Rightarrow> string" where
  "normpath p =
     (if p = [] then ''.''
      else
        let initial_slashes =
              (if startswith p ''/'' then
                 (if startswith p ''//'' \<and> \<not> startswith p ''///'' then 2 else 1)
               else 0);
            comps = foldl (normpath_step initial_slashes) [] (split_on CHR ''/'' p);
            r = replicate initial_slashes CHR ''/'' @ join_slash comps
        in if r = [] then ''.'' else r)"

text \<open>\<open>posixpath.dirname\<close> and \<open>posixpath.join\<close> (of two paths).\<close>

definition os_path_dirname :: "string \<Rightarrow> string" where
  "os_path_dirname p =
     (let head = rev (dropWhile (\<lambda>c. c \<noteq> CHR ''/'') (rev p))
      in if head \<noteq> [] \<and> head \<noteq> replicate (length head) CHR ''/''
         then rev (dropWhile (\<lambda>c. c = CHR ''/'') (rev head))
         else head)"

definition os_path_join :: "string \<Rightarrow> string \<Rightarrow> string" where
  "os_path_join a b =
     (if startswith b ''/'' then b
      else if a = [] \<or> endswith_slash a then a @ b
      else a @ ''/'' @ b)"

text \<open>
  \<open>posixpath.splitext(p)[1]\<close>: the extension, from the last dot of the last component,
  when a character other than a dot stands before it in that component.
\<close>

definition splitext_ext :: "string \<Rightarrow> string" where
  "splitext_ext p =
     (let fname = rev (takeWhile (\<lambda>c. c \<noteq> CHR ''/'') (rev p));
          suffix = rev (takeWhile (\<lambda>c. c \<noteq> CHR ''.'') (rev fname));
          stem = take (length fname - length suffix - 1) fname
      in if CHR ''.'' \<in> set fname \<and> list_ex (\<lambda>c. c \<noteq> CHR ''.'') stem
         then ''.'' @ suffix else [])"

subsection \<open>Library: \<open>SimpleHTTPRequestHandler\<close>\<close>

text \<open>
  The file system the handler reads. \<open>open_rb\<close> is \<open>open(path, 'rb')\<close> followed by the
  \<open>os.fstat\<close> of the file: it raises an exception or gives the file. \<open>listdir\<close> gives
  \<open>None\<close> where \<open>os.listdir\<close> raises \<open>OSError\<close>. \<open>getcwd\<close> is the working directory,
  which \<open>SimpleHTTPRequestHandler.__init__\<close> stores as \<open>self.directory\<close>.
\<close>

datatype exn = OSError | ValueError | TypeError | KeyboardInterrupt

record pyfile =
  content :: string
  st_size :: nat
  st_mtime :: int

record filesystem =
  getcwd :: string
  isdir :: "string \<Rightarrow> bool"
  isfile :: "string \<Rightarrow> bool"
  open_rb :: "string \<Rightarrow> exn + pyfile"
  listdir :: "string \<Rightarrow> string list option"

text \<open>
  \<open>translate_path(path)\<close>. \<open>unquote env\<close> stands for the \<open>urllib.parse.unquote\<close> call with
  its fallback. The loop over the words is \<open>translate_step\<close>.
\<close>

definition translate_step :: "string \<Rightarrow> string \<Rightarrow> string" where
  "translate_step p word =
     (if os_path_dirname word \<noteq> [] \<or> word = ''.'' \<or> word = ''..'' then p
      else os_path_join p word)"

definition translate_path :: "pyenv \<Rightarrow> handler \<Rightarrow> string \<Rightarrow> string" where
  "translate_path env h p =
     (let p = before_sep CHR ''?'' p;
          p = before_sep CHR ''#'' p;
          trailing_slash = endswith_slash (rstrip p);
          p = unquote env p;
          p = normpath p;
          words = filter (\<lambda>w. w \<noteq> []) (split_on CHR ''/'' p);
          p = foldl translate_step (directory h) words
      in if trailing_slash then p @ ''/'' else p)"

text \<open>\<open>guess_type(path)\<close>, with the class's \<open>extensions_map\<close>.\<close>

definition extensions_map :: "string \<Rightarrow> string option" where
  "extensions_map = map_of
     [(''.gz'', ''application/gzip''),
      (''.Z'', ''application/octet-stream''),
      (''.bz2'', ''application/x-bzip2''),
      (''.xz'', ''application/x-xz'')]"

definition guess_type :: "pyenv \<Rightarrow> string \<Rightarrow> string" where
  "guess_type env p =
     (let ext = splitext_ext p in
      case extensions_map ext of
        Some t \<Rightarrow> t
      | None \<Rightarrow>
          (case extensions_map (lower ext) of
             Some t \<Rightarrow> t
           | None \<Rightarrow>
               (case mimetypes_guess_type env p of
                  Some t \<Rightarrow> t
                | None \<Rightarrow> ''application/octet-stream'')))"

text \<open>
  The request headers (\<open>self.headers\<close>): \<open>headers.get(name)\<close> compares names without
  regard to case and gives the first match.
\<close>

definition header_get :: "(string \<times> string) list \<Rightarrow> string \<Rightarrow> string option" where
  "header_get hs name = map_of (map (\<lambda>(k, v). (lower k, v)) hs) (lower name)"

text \<open>
  \<open>list_directory(path)\<close>. \<open>listing_page env\<close> is the encoded HTML page built from the
  directory's entries. The result is the handler and the file object to copy, if any.
\<close>

definition list_directory ::
  "pyenv \<Rightarrow> filesystem \<Rightarrow> string \<Rightarrow> handler \<Rightarrow> handler \<times> string option" where
  "list_directory env fs p h =
     (case listdir fs p of
        None \<Rightarrow> (send_error env 404 (Some ''No permission to list directory'') None h, None)
      | Some names \<Rightarrow>
          let encoded = listing_page env p (path h) names;
              h = send_response env 200 None h;
              h = send_header ''Content-type''
                    (''text/html; charset='' @ filesystem_encoding env) h;
              h = send_header ''Content-Length'' (str_nat (length encoded)) h;
              h = end_headers h
          in (h, Some encoded))"

text \<open>
  \<open>send_head()\<close>, in two parts: \<open>send_head_file\<close> is the function from \<open>ctype = ...\<close> on,
  for a path that is not a directory or is a directory's index file. The conditional
  request: \<open>parsedate_utc env\<close> gives the instant of an \<open>If-Modified-Since\<close> value, in
  seconds, when it parses and is in UTC or has no time zone. An exception of \<open>open\<close> other
  than \<open>OSError\<close> is not caught.
\<close>

definition not_modified :: "pyenv \<Rightarrow> handler \<Rightarrow> pyfile \<Rightarrow> bool" where
  "not_modified env h f =
     (case header_get (headers h) ''If-Modified-Since'' of
        None \<Rightarrow> False
      | Some v \<Rightarrow>
          (case header_get (headers h) ''If-None-Match'' of
             Some _ \<Rightarrow> False
           | None \<Rightarrow>
               (case parsedate_utc env v of
                  None \<Rightarrow> False
                | Some ims \<Rightarrow> st_mtime f \<le> ims)))"

definition send_head_file ::
  "pyenv \<Rightarrow> filesystem \<Rightarrow> string \<Rightarrow> handler \<Rightarrow> exn + handler \<times> string option" where
  "send_head_file env fs p h =
     (let ctype = guess_type env p in
      if endswith_slash p then Inr (send_error env 404 (Some ''File not found'') None h, None)
      else
        case open_rb fs p of
          Inl OSError \<Rightarrow> Inr (send_error env 404 (Some ''File not found'') None h, None)
        | Inl e \<Rightarrow> Inl e
        | Inr f \<Rightarrow>
            if not_modified env h f then
              Inr (end_headers (send_response env 304 None h), None)
            else
              let h = send_response env 200 None h;
                  h = send_header ''Content-type'' ctype h;
                  h = send_header ''Content-Length'' (str_nat (st_size f)) h;
                  h = send_header ''Last-Modified'' (format_date env (st_mtime f)) h;
                  h = end_headers h
              in Inr (h, Some (content f)))"

definition send_head ::
  "pyenv \<Rightarrow> filesystem \<Rightarrow> handler \<Rightarrow> exn + handler \<times> string option" where
  "send_head env fs h =
     (let p = translate_path env h (path h) in
      if isdir fs p then
        if \<not> endswith_slash (urlsplit_path env (path h)) then
          let h = send_response env 301 None h;
              h = send_header ''Location'' (redirect_url env (path h)) h;
              h = send_header ''Content-Length'' ''0'' h;
              h = end_headers h
          in Inr (h, None)
        else if isfile fs (os_path_join p ''index.html'')
        then send_head_file env fs (os_path_join p ''index.html'') h
        else if isfile fs (os_path_join p ''index.htm'')
        then send_head_file env fs (os_path_join p ''index.htm'') h
        else Inr (list_directory env fs p h)
      else send_head_file env fs p h)"

text \<open>
  \<open>do_GET()\<close> copies the file object to \<open>wfile\<close> (\<open>copyfile\<close>; kept as one write);
  \<open>do_HEAD()\<close> closes it.
\<close>

definition do_GET :: "pyenv \<Rightarrow> filesystem \<Rightarrow> handler \<Rightarrow> exn + handler" where
  "do_GET env fs h =
     (case send_head env fs h of
        Inl e \<Rightarrow> Inl e
      | Inr (h, Some b) \<Rightarrow> Inr (h\<lparr>wfile := wfile h @ [BodyBytes b]\<rparr>)
      | Inr (h, None) \<Rightarrow> Inr h)"

definition do_HEAD :: "pyenv \<Rightarrow> filesystem \<Rightarrow> handler \<Rightarrow> exn + handler" where
  "do_HEAD env fs h =
     (case send_head env fs h of
        Inl e \<Rightarrow> Inl e
      | Inr (h, _) \<Rightarrow> Inr h)"

subsection \<open>Library: \<open>BaseHTTPRequestHandler.parse_request\<close> and \<open>handle_one_request\<close>\<close>

text \<open>
  What one request brings on the connection: the request line as \<open>rfile.readline(65537)\<close>
  gives it (empty at the end of the stream), and the outcome of
  \<open>http.client.parse_headers\<close> on the lines after it.
\<close>

datatype header_parse =
  Parsed "(string \<times> string) list" | LineTooLong string | TooManyHeaders string

record raw_request =
  raw_requestline :: string
  parsed_headers :: header_parse

text \<open>\<open>requestline.rstrip('\r\n')\<close> and \<open>requestline.split()\<close>.\<close>

definition rstrip_crlf :: "string \<Rightarrow> string" where
  "rstrip_crlf s = rev (dropWhile (\<lambda>c. c = CHR 0x0D \<or> c = CHR 0x0A) (rev s))"

fun split_ws :: "string \<Rightarrow> string \<Rightarrow> string list" where
  "split_ws w [] = (if w = [] then [] else [w])"
| "split_ws w (c # cs) =
     (if py_isspace c then (if w = [] then split_ws [] cs else w # split_ws [] cs)
      else split_ws (w @ [c]) cs)"

definition py_split :: "string \<Rightarrow> string list" where
  "py_split s = split_ws [] s"

text \<open>
  The version of the request line, as the \<open>try\<close> block of \<open>parse_request\<close> reads it:
  \<open>HTTP/\<close>, then two runs of at most ten digits around one dot. \<open>None\<close> is the
  \<open>ValueError\<close> of the block (a digit that \<open>int\<close> does not read raises it too).
\<close>

definition digit_val :: "char \<Rightarrow> nat" where
  "digit_val c =
     (case map_of (zip ''0123456789'' [0, 1, 2, 3, 4, 5, 6, 7, 8, 9]) c of
        Some d \<Rightarrow> d
      | None \<Rightarrow> 0)"

definition isdigit :: "string \<Rightarrow> bool" where
  "isdigit s \<longleftrightarrow> s \<noteq> [] \<and> list_all (\<lambda>c. c \<in> set ''0123456789'') s"

definition int_of_digits :: "string \<Rightarrow> nat" where
  "int_of_digits s = foldl (\<lambda>n c. 10 * n + digit_val c) 0 s"

definition parse_version :: "string \<Rightarrow> (nat \<times> nat) option" where
  "parse_version version =
     (if \<not> startswith version ''HTTP/'' then None
      else
        case split_on CHR ''.'' (drop 5 version) of
          [a, b] \<Rightarrow>
            if list_ex (\<lambda>c. \<not> isdigit c) [a, b] then None
            else if list_ex (\<lambda>c. 10 < length c) [a, b] then None
            else Some (int_of_digits a, int_of_digits b)
        | _ \<Rightarrow> None)"

text \<open>
  \<open>handle_expect_100()\<close>: status line 100 and the end of the headers, through the
  script's \<open>end_headers\<close>.
\<close>

definition handle_expect_100 :: "handler \<Rightarrow> handler" where
  "handle_expect_100 h = end_headers (send_response_only 100 None h)"

text \<open>
  \<open>parse_request()\<close>, in three parts, each giving \<open>Inl\<close> where the function returns
  \<open>False\<close> (an error response has been sent) and \<open>Inr\<close> where it goes on: the version
  (\<open>if len(words) >= 3\<close>), the command and the path, the headers.
\<close>

definition parse_request_version :: "pyenv \<Rightarrow> string list \<Rightarrow> handler \<Rightarrow> handler + handler" where
  "parse_request_version env words h =
     (if 3 \<le> length words then
        let version = last words in
        case parse_version version of
          None \<Rightarrow>
            Inl (send_error env 400
                   (Some (''Bad request version ('' @ py_repr env version @ '')'')) None h)
        | Some (major, minor) \<Rightarrow>
            let h = (if (1 < major \<or> (major = 1 \<and> 1 \<le> minor))
                        \<and> str_le ''HTTP/1.1'' protocol_version
                     then h\<lparr>close_connection := False\<rparr> else h)
            in if 2 \<le> major then
                 Inl (send_error env 505
                        (Some (''Invalid HTTP version ('' @ drop 5 version @ '')'')) None h)
               else Inr (h\<lparr>request_version := version\<rparr>)
      else Inr h)"

definition parse_request_command ::
  "pyenv \<Rightarrow> string \<Rightarrow> string list \<Rightarrow> handler \<Rightarrow> handler + handler" where
  "parse_request_command env requestline words h =
     (if \<not> (2 \<le> length words \<and> length words \<le> 3) then
        Inl (send_error env 400
               (Some (''Bad request syntax ('' @ py_repr env requestline @ '')'')) None h)
      else
        let cmd = words ! 0;
            p = words ! 1;
            h = (if length words = 2 then h\<lparr>close_connection := True\<rparr> else h)
        in if length words = 2 \<and> cmd \<noteq> ''GET'' then
             Inl (send_error env 400
                    (Some (''Bad HTTP/0.9 request type ('' @ py_repr env cmd @ '')'')) None h)
           else
             let h = h\<lparr>command := Some cmd, path := p\<rparr> in
             Inr (if startswith (path h) ''//''
                  then h\<lparr>path := ''/'' @ dropWhile (\<lambda>c. c = CHR ''/'') (path h)\<rparr>
                  else h))"

definition parse_request_headers :: "pyenv \<Rightarrow> header_parse \<Rightarrow> handler \<Rightarrow> handler + handler" where
  "parse_request_headers env hp h =
     (case hp of
        LineTooLong err \<Rightarrow> Inl (send_error env 431 (Some ''Line too long'') (Some err) h)
      | TooManyHeaders err \<Rightarrow> Inl (send_error env 431 (Some ''Too many headers'') (Some err) h)
      | Parsed hs \<Rightarrow>
          let h = h\<lparr>headers := hs\<rparr>;
              conntype = (case header_get hs ''Connection'' of Some v \<Rightarrow> v | None \<Rightarrow> []);
              h = (if lower conntype = ''close'' then h\<lparr>close_connection := True\<rparr>
                   else if lower conntype = ''keep-alive'' \<and> str_le ''HTTP/1.1'' protocol_version
                   then h\<lparr>close_connection := False\<rparr>
                   else h);
              expect = (case header_get hs ''Expect'' of Some v \<Rightarrow> v | None \<Rightarrow> [])
          in if lower expect = ''100-continue'' \<and> str_le ''HTTP/1.1'' protocol_version
                \<and> str_le ''HTTP/1.1'' (request_version h)
             then Inr (handle_expect_100 h)
             else Inr h)"

definition parse_request :: "pyenv \<Rightarrow> raw_request \<Rightarrow> handler \<Rightarrow> bool \<times> handler" where
  "parse_request env rq h =
     (let h = h\<lparr>command := None, request_version := ''HTTP/0.9'', close_connection := True\<rparr>;
          requestline = rstrip_crlf (raw_requestline rq);
          words = py_split requestline
      in if words = [] then (False, h)
         else
           case parse_request_version env words h of
             Inl h \<Rightarrow> (False, h)
           | Inr h \<Rightarrow>
               (case parse_request_command env requestline words h of
                  Inl h \<Rightarrow> (False, h)
                | Inr h \<Rightarrow>
                    (case parse_request_headers env (parsed_headers rq) h of
                       Inl h \<Rightarrow> (False, h)
                     | Inr h \<Rightarrow> (True, h))))"

text \<open>
  \<open>handle_one_request()\<close>. The handler class has the methods \<open>do_GET\<close> and \<open>do_HEAD\<close>
  (inherited) and \<open>do_OPTIONS\<close> (the script's), so \<open>hasattr(self, 'do_' + self.command)\<close>
  holds for these three commands only. The result is \<open>Inl\<close> when an exception leaves
  the method.
\<close>

definition handle_one_request ::
  "pyenv \<Rightarrow> filesystem \<Rightarrow> raw_request \<Rightarrow> handler \<Rightarrow> exn + handler" where
  "handle_one_request env fs rq h =
     (if 65536 < length (raw_requestline rq) then
        Inr (send_error env 414 None None (h\<lparr>request_version := [], command := Some []\<rparr>))
      else if raw_requestline rq = [] then Inr (h\<lparr>close_connection := True\<rparr>)
      else
        case parse_request env rq h of
          (False, h) \<Rightarrow> Inr h
        | (True, h) \<Rightarrow>
            (case command h of
               None \<Rightarrow> Inl TypeError
             | Some c \<Rightarrow>
                 if c = ''GET'' then do_GET env fs h
                 else if c = ''HEAD'' then do_HEAD env fs h
                 else if c = ''OPTIONS'' then Inr (do_OPTIONS env h)
                 else Inr (send_error env 501
                             (Some (''Unsupported method ('' @ py_repr env c @ '')'')) None h)))"

text \<open>
  \<open>handle()\<close>: one request, then further ones while \<open>close_connection\<close> is false. The
  requests are those the client sends on the connection; after the last one,
  \<open>readline\<close> gives the empty line.
\<close>

definition end_of_stream :: raw_request where
  "end_of_stream = \<lparr>raw_requestline = [], parsed_headers = Parsed []\<rparr>"

fun handle_requests ::
  "pyenv \<Rightarrow> filesystem \<Rightarrow> raw_request list \<Rightarrow> handler \<Rightarrow> exn + handler" where
  "handle_requests env fs [] h = handle_one_request env fs end_of_stream h"
| "handle_requests env fs (rq # rqs) h =
     (case handle_one_request env fs rq h of
        Inl e \<Rightarrow> Inl e
      | Inr h \<Rightarrow> if close_connection h then Inr h else handle_requests env fs rqs h)"

definition handle :: "pyenv \<Rightarrow> filesystem \<Rightarrow> raw_request list \<Rightarrow> handler \<Rightarrow> exn + handler" where
  "handle env fs rqs h = handle_requests env fs rqs (h\<lparr>close_connection := True\<rparr>)"

subsection \<open>Library: \<open>socketserver.TCPServer\<close>\<close>

text \<open>
  A connection that the server accepts: the requests the client sends on it, and the
  exception, if any, that the socket raises while the handler reads or writes (a client
  that disconnects: \<open>ConnectionResetError\<close>, \<open>BrokenPipeError\<close>, both \<open>OSError\<close>).
\<close>

record connection =
  rfile :: "raw_request list"
  fault :: "exn option"

text \<open>
  \<open>finish_request\<close>: \<open>RequestHandlerClass(request, client_address, self)\<close>, whose
  constructor runs \<open>setup()\<close>, \<open>handle()\<close> and \<open>finish()\<close>. The result is what the handler
  wrote to the socket, or the exception that left it.
\<close>

definition new_handler :: "filesystem \<Rightarrow> handler" where
  "new_handler fs =
     \<lparr>directory = getcwd fs, command = None, path = [], request_version = [],
      headers = [], close_connection = True, headers_buffer = [], wfile = []\<rparr>"

definition finish_request :: "pyenv \<Rightarrow> filesystem \<Rightarrow> connection \<Rightarrow> exn + chunk list" where
  "finish_request env fs c =
     (case fault c of
        Some e \<Rightarrow> Inl e
      | None \<Rightarrow>
          (case handle env fs (rfile c) (new_handler fs) of
             Inl e \<Rightarrow> Inl e
           | Inr h \<Rightarrow> Inr (wfile h)))"

text \<open>
  The class \<open>Exception\<close>: \<open>KeyboardInterrupt\<close> derives from \<open>BaseException\<close> only.
\<close>

fun is_Exception :: "exn \<Rightarrow> bool" where
  "is_Exception KeyboardInterrupt = False"
| "is_Exception e = True"

text \<open>
  What the serve loop meets, in order: a connection to accept, an \<open>accept\<close> that raises
  \<open>OSError\<close>, or the interrupt signal, which raises \<open>KeyboardInterrupt\<close> in the loop.
\<close>

datatype event = Accept connection | AcceptError | Interrupt

datatype address_family = AF_INET | AF_INET6

datatype socket_type = SOCK_STREAM | SOCK_DGRAM

record server =
  address_family :: address_family
  socket_type :: socket_type
  server_address :: "string \<times> nat"
  served :: "chunk list list"
  handled_errors :: "exn list"

text \<open>
  \<open>_handle_request_noblock()\<close>: an \<open>Exception\<close> of the handler goes to \<open>handle_error\<close>
  (a traceback on standard error) and the loop goes on; any other exception is raised
  again.
\<close>

definition handle_request_noblock ::
  "pyenv \<Rightarrow> filesystem \<Rightarrow> connection option \<Rightarrow> server \<Rightarrow> exn + server" where
  "handle_request_noblock env fs get_request srv =
     (case get_request of
        None \<Rightarrow> Inr srv
      | Some c \<Rightarrow>
          (case finish_request env fs c of
             Inr out \<Rightarrow> Inr (srv\<lparr>served := served srv @ [out]\<rparr>)
           | Inl e \<Rightarrow>
               if is_Exception e then Inr (srv\<lparr>handled_errors := handled_errors srv @ [e]\<rparr>)
               else Inl e))"

text \<open>
  \<open>serve_forever()\<close> over the events that arrive. The result is the server and the
  exception that ended the loop; \<open>None\<close> when the events are used up and the loop is
  still waiting in \<open>select\<close>.
\<close>

fun serve_forever ::
  "pyenv \<Rightarrow> filesystem \<Rightarrow> event list \<Rightarrow> server \<Rightarrow> server \<times> exn option" where
  "serve_forever env fs [] srv = (srv, None)"
| "serve_forever env fs (Interrupt # evs) srv = (srv, Some KeyboardInterrupt)"
| "serve_forever env fs (AcceptError # evs) srv =
     (case handle_request_noblock env fs None srv of
        Inl e \<Rightarrow> (srv, Some e)
      | Inr srv \<Rightarrow> serve_forever env fs evs srv)"
| "serve_forever env fs (Accept c # evs) srv =
     (case handle_request_noblock env fs (Some c) srv of
        Inl e \<Rightarrow> (srv, Some e)
      | Inr srv \<Rightarrow> serve_forever env fs evs srv)"

text \<open>
  The network as the process sees it: the ports that already have a listener (or
  cannot be bound for another reason the system gives), and whether the process may
  bind a port. \<open>TCPServer.__init__\<close> with \<open>server_bind\<close> and \<open>server_activate\<close>: \<open>bind\<close>
  raises \<open>OSError\<close>, the constructor closes its socket and raises the exception again;
  \<open>allow_reuse_address\<close> is false for \<open>TCPServer\<close>. The class attributes
  \<open>address_family\<close> and \<open>socket_type\<close> are \<open>AF_INET\<close> and \<open>SOCK_STREAM\<close>.
\<close>

record network =
  in_use :: "(string \<times> nat) set"
  permitted :: "nat \<Rightarrow> bool"

definition TCPServer :: "network \<Rightarrow> string \<times> nat \<Rightarrow> exn + server \<times> network" where
  "TCPServer net address =
     (if address \<in> in_use net \<or> \<not> permitted net (snd address) then Inl OSError
      else Inr (\<lparr>address_family = AF_INET, socket_type = SOCK_STREAM,
                 server_address = address, served = [], handled_errors = []\<rparr>,
                net\<lparr>in_use := insert address (in_use net)\<rparr>))"

text \<open>\<open>server_close()\<close>: the listening socket is closed, and its address is free again.\<close>

definition server_close :: "network \<Rightarrow> string \<times> nat \<Rightarrow> network" where
  "server_close net address = net\<lparr>in_use := in_use net - {address}\<rparr>"

subsection \<open>The script: the main block\<close>

definition PORT :: nat where
  "PORT = 8080"

text \<open>
  What the process has done: the lines printed on standard output, the exceptions whose
  traceback the interpreter printed on standard error, and its exit status (\<open>None\<close> while
  it runs). An exception that nothing catches ends the process with a traceback and
  status 1.
\<close>

record process =
  stdout :: "string list"
  traceback :: "exn list"
  exit_status :: "nat option"
  httpd :: "server option"

definition uncaught :: "exn \<Rightarrow> process \<Rightarrow> process" where
  "uncaught e p = p\<lparr>traceback := traceback p @ [e], exit_status := Some 1\<rparr>"

text \<open>\<open>print(s)\<close>: the text, encoded in UTF-8, and a newline.\<close>

definition py_print :: "string \<Rightarrow> process \<Rightarrow> process" where
  "py_print s p = p\<lparr>stdout := stdout p @ [s @ [CHR 0x0A]]\<rparr>"

text \<open>
  The main block (lines 27 to 37). \<open>os.chdir('.')\<close> changes nothing. Leaving the \<open>with\<close>
  block closes the server's socket, which frees the address.
\<close>

definition startup_lines :: "string list" where
  "startup_lines =
     [[CHR 0xF0, CHR 0x9F, CHR 0x9A, CHR 0x80] @
        '' Development server running at http://localhost:'' @ str_nat PORT @ ''/'',
      [CHR 0xF0, CHR 0x9F, CHR 0x93, CHR 0x9D] @ '' CORS headers enabled for ES6 modules'',
      [CHR 0xF0, CHR 0x9F, CHR 0x94, CHR 0x84] @ '' Press Ctrl+C to stop'']"

definition stopped_line :: string where
  "stopped_line = [CHR 0x0A, CHR 0xF0, CHR 0x9F, CHR 0x91, CHR 0x8B] @ '' Server stopped''"

definition main ::
  "pyenv \<Rightarrow> filesystem \<Rightarrow> network \<Rightarrow> event list \<Rightarrow> process \<times> network" where
  "main env fs net events =
     (let p = \<lparr>stdout = [], traceback = [], exit_status = None, httpd = None\<rparr> in
      case TCPServer net ('''', PORT) of
        Inl e \<Rightarrow> (uncaught e p, net)
      | Inr (srv, net') \<Rightarrow>
          (let p = foldl (\<lambda>p s. py_print s p) p startup_lines in
           case serve_forever env fs events srv of
             (srv, None) \<Rightarrow> (p\<lparr>httpd := Some srv\<rparr>, net')
           | (srv, Some KeyboardInterrupt) \<Rightarrow>
               ((py_print stopped_line (p\<lparr>httpd := Some srv\<rparr>))\<lparr>exit_status := Some 0\<rparr>,
                server_close net' ('''', PORT))
           | (srv, Some e) \<Rightarrow>
               (uncaught e (p\<lparr>httpd := Some srv\<rparr>), server_close net' ('''', PORT))))"

subsection \<open>What the claims speak of\<close>

text \<open>
  The header lines of a response (those of its header blocks), and its body. A response
  carries the script's headers when each of the five lines is among its header lines.
\<close>

fun header_lines :: "chunk list \<Rightarrow> string list" where
  "header_lines [] = []"
| "header_lines (HeaderBlock ls # cs) = ls @ header_lines cs"
| "header_lines (BodyBytes b # cs) = header_lines cs"

fun body_bytes :: "chunk list \<Rightarrow> string" where
  "body_bytes [] = []"
| "body_bytes (HeaderBlock ls # cs) = body_bytes cs"
| "body_bytes (BodyBytes b # cs) = b @ body_bytes cs"

definition carries_cors :: "string list \<Rightarrow> bool" where
  "carries_cors ls = list_all (\<lambda>l. l \<in> set ls) cors_lines"

fun blocks_carry_cors :: "chunk list \<Rightarrow> bool" where
  "blocks_carry_cors [] = True"
| "blocks_carry_cors (HeaderBlock ls # cs) = (carries_cors ls \<and> blocks_carry_cors cs)"
| "blocks_carry_cors (BodyBytes b # cs) = blocks_carry_cors cs"

fun has_header_block :: "chunk list \<Rightarrow> bool" where
  "has_header_block [] = False"
| "has_header_block (HeaderBlock ls # cs) = True"
| "has_header_block (BodyBytes b # cs) = has_header_block cs"






subsection \<open>An installation and a site, for the concrete runs\<close>

text \<open>
  The parameters at one installation. On the texts used below (no \<open>%\<close>, no query) the
  library's \<open>unquote\<close> and \<open>urlsplit\<close> give back their argument.
\<close>

definition example_env :: pyenv where
  "example_env =
     \<lparr>version_string = ''SimpleHTTP/0.6 Python/3.11.10'',
      date_time_string = ''Wed, 04 Nov 2026 10:00:00 GMT'',
      format_date = (\<lambda>t. ''Thu, 01 Jan 2026 00:00:00 GMT''),
      error_page = (\<lambda>code message explain. ''<p>Error code: '' @ str_nat code @ ''</p>''),
      unquote = (\<lambda>s. s),
      urlsplit_path = (\<lambda>s. s),
      redirect_url = (\<lambda>s. s @ ''/''),
      mimetypes_guess_type =
        (\<lambda>p. if splitext_ext p = ''.js'' then Some ''application/javascript'' else None),
      parsedate_utc =
        (\<lambda>s. if s = ''Fri, 01 Jan 2027 00:00:00 GMT'' then Some 1798761600 else None),
      listing_page = (\<lambda>p shown names. concat names),
      filesystem_encoding = ''utf-8'',
      py_repr = (\<lambda>s. [CHR 0x27] @ s @ [CHR 0x27])\<rparr>"

text \<open>A site: the directory \<open>/srv/site\<close> with the one file \<open>app.js\<close>.\<close>

definition example_fs :: filesystem where
  "example_fs =
     \<lparr>getcwd = ''/srv/site'',
      isdir = (\<lambda>p. p = ''/srv/site'' \<or> p = ''/srv/site/''),
      isfile = (\<lambda>p. p = ''/srv/site/app.js''),
      open_rb =
        (\<lambda>p. if p = ''/srv/site/app.js''
             then Inr \<lparr>content = ''export {}'', st_size = 9, st_mtime = 1767225600\<rparr>
             else Inl OSError),
      listdir = (\<lambda>p. if p = ''/srv/site'' \<or> p = ''/srv/site/'' then Some [''app.js''] else None)\<rparr>"

text \<open>The same site in a file system that also has a file outside the root.\<close>

definition example_fs_outside :: filesystem where
  "example_fs_outside =
     example_fs\<lparr>open_rb :=
       (\<lambda>p. if p = ''/etc/passwd''
            then Inr \<lparr>content = ''root:x:0:0'', st_size = 10, st_mtime = 0\<rparr>
            else open_rb example_fs p)\<rparr>"

definition request :: "string \<Rightarrow> (string \<times> string) list \<Rightarrow> raw_request" where
  "request line hs = \<lparr>raw_requestline = line @ CRLF, parsed_headers = Parsed hs\<rparr>"

definition client :: "raw_request list \<Rightarrow> connection" where
  "client rqs = \<lparr>rfile = rqs, fault = None\<rparr>"


definition busy_network :: network where
  "busy_network = \<lparr>in_use = {('''', 8080)}, permitted = (\<lambda>port. True)\<rparr>"

subsection \<open>Predicates for the proofs\<close>


definition quiet :: "handler \<Rightarrow> handler \<Rightarrow> bool" where
  "quiet h h' \<longleftrightarrow> request_version h' = request_version h \<and> wfile h' = wfile h"





section \<open>Properties\<close>

lemma lower_cors_keywords:
  "lower ''Access-Control-Allow-Origin'' \<noteq> ''connection''"
  "lower ''Access-Control-Allow-Methods'' \<noteq> ''connection''"
  "lower ''Access-Control-Allow-Headers'' \<noteq> ''connection''"
  "lower ''Cross-Origin-Embedder-Policy'' \<noteq> ''connection''"
  "lower ''Cross-Origin-Opener-Policy'' \<noteq> ''connection''"
  by (simp_all add: lower_def lower_char_def)

lemma end_headers_http09:
  "request_version h = ''HTTP/0.9'' \<Longrightarrow> end_headers h = h"
  by (simp add: end_headers_def send_header_def Base_end_headers_def Let_def lower_cors_keywords)

lemma end_headers_writes:
  "request_version h \<noteq> ''HTTP/0.9'' \<Longrightarrow>
   end_headers h =
     h\<lparr>wfile := wfile h @ [HeaderBlock (headers_buffer h @ cors_lines @ [CRLF])],
       headers_buffer := []\<rparr>"
  by (simp add: end_headers_def send_header_def Base_end_headers_def flush_headers_def
      Let_def lower_cors_keywords cors_lines_def)


lemma send_header_fields [simp]:
  "wfile (send_header k v h) = wfile h"
  "request_version (send_header k v h) = request_version h"
  "command (send_header k v h) = command h"
  "path (send_header k v h) = path h"
  "headers (send_header k v h) = headers h"
  "directory (send_header k v h) = directory h"
  by (simp_all add: send_header_def Let_def)

lemma send_header_buffer:
  "request_version h \<noteq> ''HTTP/0.9'' \<Longrightarrow>
   headers_buffer (send_header k v h) = headers_buffer h @ [k @ '': '' @ v @ CRLF]"
  by (simp add: send_header_def Let_def)

lemma send_response_only_fields [simp]:
  "wfile (send_response_only c m h) = wfile h"
  "request_version (send_response_only c m h) = request_version h"
  "command (send_response_only c m h) = command h"
  "path (send_response_only c m h) = path h"
  "headers (send_response_only c m h) = headers h"
  "directory (send_response_only c m h) = directory h"
  "close_connection (send_response_only c m h) = close_connection h"
  by (simp_all add: send_response_only_def Let_def)

lemma send_response_only_buffer:
  "request_version h \<noteq> ''HTTP/0.9'' \<Longrightarrow>
   headers_buffer (send_response_only c (Some m) h) =
     headers_buffer h @ [''HTTP/1.0 '' @ str_nat c @ '' '' @ m @ CRLF]"
  by (simp add: send_response_only_def Let_def protocol_version_def)

lemma send_response_fields [simp]:
  "wfile (send_response env c m h) = wfile h"
  "request_version (send_response env c m h) = request_version h"
  "command (send_response env c m h) = command h"
  "path (send_response env c m h) = path h"
  "headers (send_response env c m h) = headers h"
  "directory (send_response env c m h) = directory h"
  by (simp_all add: send_response_def Let_def)

lemma send_response_buffer:
  "request_version h \<noteq> ''HTTP/0.9'' \<Longrightarrow>
   headers_buffer (send_response env c (Some m) h) =
     headers_buffer h @
       [''HTTP/1.0 '' @ str_nat c @ '' '' @ m @ CRLF,
        ''Server: '' @ version_string env @ CRLF,
        ''Date: '' @ date_time_string env @ CRLF]"
  by (simp add: send_response_def Let_def send_header_buffer send_response_only_buffer)

lemma end_headers_fields [simp]:
  "request_version (end_headers h) = request_version h"
  "command (end_headers h) = command h"
  "path (end_headers h) = path h"
  "headers (end_headers h) = headers h"
  "directory (end_headers h) = directory h"
  "close_connection (end_headers h) = close_connection h"
  by (cases "request_version h = ''HTTP/0.9''";
      simp add: end_headers_http09 end_headers_writes)+



lemma blocks_carry_cors_append [simp]:
  "blocks_carry_cors (xs @ ys) \<longleftrightarrow> blocks_carry_cors xs \<and> blocks_carry_cors ys"
  by (induction xs rule: blocks_carry_cors.induct) auto

lemma has_header_block_append [simp]:
  "has_header_block (xs @ ys) \<longleftrightarrow> has_header_block xs \<or> has_header_block ys"
  by (induction xs rule: has_header_block.induct) auto


lemma quiet_refl: "quiet h h"
  by (simp add: quiet_def)



lemma quiet_send_response_only: "quiet h (send_response_only c m h)"
  by (simp add: quiet_def)












lemma protocol_below_11 [simp]: "\<not> str_le ''HTTP/1.1'' protocol_version"
  by (simp add: protocol_version_def)









lemma lower_connection [simp]:
  "lower ''Connection'' = ''connection''" "lower ''close'' = ''close''"
  by (simp_all add: lower_def lower_char_def)

lemma lower_other_keywords [simp]:
  "lower ''Server'' \<noteq> ''connection''"
  "lower ''Date'' \<noteq> ''connection''"
  "lower ''Content-Type'' \<noteq> ''connection''"
  "lower ''Content-type'' \<noteq> ''connection''"
  "lower ''Content-Length'' \<noteq> ''connection''"
  "lower ''Last-Modified'' \<noteq> ''connection''"
  "lower ''Location'' \<noteq> ''connection''"
  by (simp_all add: lower_def lower_char_def)


lemma send_header_connection_close:
  "send_header ''Connection'' ''close'' h =
     (if request_version h = ''HTTP/0.9'' then h\<lparr>close_connection := True\<rparr>
      else h\<lparr>headers_buffer := headers_buffer h @ [''Connection: close'' @ CRLF],
             close_connection := True\<rparr>)"
  by (simp add: send_header_def Let_def)






























lemma request_fields [simp]:
  "parsed_headers (request line hs) = Parsed hs"
  "length (raw_requestline (request line hs)) = length line + 2"
  by (simp_all add: request_def CRLF_def)

















lemma example_fs_app [simp]:
  "isdir example_fs ''/srv/site/app.js'' = False"
  "open_rb example_fs ''/srv/site/app.js''
     = Inr \<lparr>content = ''export {}'', st_size = 9, st_mtime = 1767225600\<rparr>"
  "isdir example_fs ''/srv/site/missing.txt'' = False"
  "open_rb example_fs ''/srv/site/missing.txt'' = Inl OSError"
  by (simp_all add: example_fs_def)


lemma example_env_fields [simp]:
  "version_string example_env = ''SimpleHTTP/0.6 Python/3.11.10''"
  "date_time_string example_env = ''Wed, 04 Nov 2026 10:00:00 GMT''"
  "format_date example_env t = ''Thu, 01 Jan 2026 00:00:00 GMT''"
  "error_page example_env code m d = ''<p>Error code: '' @ str_nat code @ ''</p>''"
  by (simp_all add: example_env_def)

lemma new_handler_fields [simp]:
  "wfile (new_handler fs) = []"
  "headers_buffer (new_handler fs) = []"
  "directory (new_handler fs) = getcwd fs"
  "close_connection (new_handler fs) = True"
  by (simp_all add: new_handler_def)



lemma serve_forever_error:
  "finish_request env fs c = Inl e \<Longrightarrow> is_Exception e \<Longrightarrow>
   serve_forever env fs (Accept c # evs) srv =
     serve_forever env fs evs (srv\<lparr>handled_errors := handled_errors srv @ [e]\<rparr>)"
  by (simp add: handle_request_noblock_def)




















text \<open>
  C7. When the address \<open>('', 8080)\<close> is in use or the process may not bind the port,
  \<open>TCPServer\<close> raises \<open>OSError\<close> and the main block does not catch it: nothing is
  printed on standard output, the interpreter prints the traceback, and the process ends
  with status 1. The network is left as it was, so the instance that holds the port is
  not affected.
\<close>

theorem bind_failure_is_fatal:
  "('''', PORT) \<in> in_use net \<or> \<not> permitted net PORT \<Longrightarrow>
   main env fs net events =
     (\<lparr>stdout = [], traceback = [OSError], exit_status = Some 1, httpd = None\<rparr>, net)"
  by (auto simp: main_def TCPServer_def uncaught_def)

theorem bind_failure_is_fatal_witness:
  "main example_env example_fs busy_network [Accept (client [request ''GET /app.js'' []])] =
     (\<lparr>stdout = [], traceback = [OSError], exit_status = Some 1, httpd = None\<rparr>,
      busy_network)"
  using bind_failure_is_fatal [of busy_network example_env example_fs
      "[Accept (client [request ''GET /app.js'' []])]"]
  by (simp add: busy_network_def PORT_def)







lemma cc_send_header:
  "lower k \<noteq> ''connection'' \<Longrightarrow>
   close_connection (send_header k v h) = close_connection h"
  by (simp add: send_header_def Let_def)

lemma cc_send_response [simp]:
  "close_connection (send_response env c m h) = close_connection h"
  by (simp add: send_response_def Let_def cc_send_header)

lemma cc_send_error [simp]: "close_connection (send_error env code m e h)"
  by (simp add: send_error_def Let_def cc_send_header send_header_connection_close
      split: option.splits prod.splits)

















lemma split_on_not_Nil [simp]: "split_on c xs \<noteq> []"
  by (induction xs) (auto split: list.splits)



lemma split_on_parts_no_sep: "w \<in> set (split_on c xs) \<Longrightarrow> c \<notin> set w"
proof (induction xs arbitrary: w)
  case Nil
  then show ?case by simp
next
  case (Cons x xs)
  obtain v vs where s: "split_on c xs = v # vs"
    by (cases "split_on c xs") simp_all
  show ?case
  proof (cases "x = c")
    case True
    with Cons show ?thesis by auto
  next
    case False
    with Cons.prems s have "w = x # v \<or> w \<in> set vs" by simp
    then show ?thesis
    proof
      assume "w = x # v"
      moreover have "c \<notin> set v" using Cons.IH [of v] s by simp
      ultimately show ?thesis using False by simp
    next
      assume "w \<in> set vs"
      then show ?thesis using Cons.IH [of w] s by simp
    qed
  qed
qed










lemma dir_send_error [simp]: "directory (send_error env code m e h) = directory h"
  by (simp add: send_error_def Let_def split: option.splits prod.splits)













lemma example_fs_cwd [simp]:
  "getcwd example_fs = ''/srv/site''" "getcwd example_fs_outside = ''/srv/site''"
  by (simp_all add: example_fs_def example_fs_outside_def)








end
